theory Spec2Isabelle
  imports Main "HOL-Library.Word"
begin

section \<open>Values exchanged with the client\<close>

text \<open>
  JSON bodies. A Python \<open>dict\<close> is an association list in insertion order; storing
  under a key that is already there replaces the value and keeps the key's position.
\<close>

datatype json =
    JNull
  | JBool bool
  | JInt int
  | JStr string
  | JList "json list"
  | JObj "(string \<times> json) list"

fun dict_set :: "string \<Rightarrow> json \<Rightarrow> (string \<times> json) list \<Rightarrow> (string \<times> json) list" where
  "dict_set k v [] = [(k, v)]"
| "dict_set k v ((k', v') # d) = (if k' = k then (k, v) # d else (k', v') # dict_set k v d)"

text \<open>The dict display \<open>{**d, **e}\<close>: the items of \<open>e\<close> are stored into \<open>d\<close> in order.\<close>

definition dict_unpack :: "(string \<times> json) list \<Rightarrow> (string \<times> json) list \<Rightarrow> (string \<times> json) list" where
  "dict_unpack d e = fold (\<lambda>(k, v). dict_set k v) e d"

text \<open>Python's \<open>str\<close> of an integer, used by the f-strings of the handlers.\<close>

fun str_nat :: "nat \<Rightarrow> string" where
  "str_nat n =
     (if n < 10 then [char_of (48 + n)]
      else str_nat (n div 10) @ [char_of (48 + n mod 10)])"

declare str_nat.simps [simp del]

definition str_int :: "int \<Rightarrow> string" where
  "str_int i = (if i < 0 then CHR ''-'' # str_nat (nat (- i)) else str_nat (nat i))"

text \<open>
  Everything a handler can raise. An \<open>HTTPException\<close> carries its status code and
  detail; every other exception is not caught by any handler and reaches the framework,
  which answers 500.
\<close>

datatype exn =
    HTTPException nat string
  | IntegrityError
  | OverflowError
  | OperationalError
  | ResponseValidationError
  | DecodeError
  | InvalidSignatureError
  | ExpiredSignatureError

fun exn_status :: "exn \<Rightarrow> nat" where
  "exn_status (HTTPException code detail) = code"
| "exn_status e = 500"

text \<open>
  What a menu handler hands back: an explicit \<open>JSONResponse(content, status_code)\<close>,
  or a plain value that the framework serialises with status 200.
\<close>

datatype response =
    JSONResponse json nat
  | Returned json

fun response_status :: "response \<Rightarrow> nat" where
  "response_status (JSONResponse content code) = code"
| "response_status (Returned content) = 200"

text \<open>The request and response model \<open>Dish\<close> of \<open>main1.py\<close>.\<close>

record Dish =
  id' :: int
  name :: string
  category_id :: int
  availability :: bool
  stock :: "int option"

text \<open>\<open>dish.dict()\<close>: the fields in declaration order.\<close>

definition Dish_dict :: "Dish \<Rightarrow> (string \<times> json) list" where
  "Dish_dict d =
     [(''id'', JInt (id' d)),
      (''name'', JStr (name d)),
      (''category_id'', JInt (category_id d)),
      (''availability'', JBool (availability d)),
      (''stock'', (case stock d of None \<Rightarrow> JNull | Some s \<Rightarrow> JInt s))]"

section \<open>The relational store\<close>

text \<open>
  An SQLite INTEGER is a signed 64-bit value: a \<open>64 word\<close> read with \<open>sint\<close>.
  Binding a Python integer outside that range makes \<open>cursor.execute\<close> raise
  \<open>OverflowError\<close> before the statement runs. A Python \<open>bool\<close> is bound as 1 or 0,
  \<open>None\<close> as NULL.
\<close>

type_synonym sql_int = "64 word"

definition bind_int :: "int \<Rightarrow> exn + sql_int" where
  "bind_int n = (if - (2 ^ 63) \<le> n \<and> n < 2 ^ 63 then Inr (word_of_int n) else Inl OverflowError)"

definition bind_bool :: "bool \<Rightarrow> sql_int" where
  "bind_bool b = (if b then 1 else 0)"

definition bind_opt_int :: "int option \<Rightarrow> exn + sql_int option" where
  "bind_opt_int v =
     (case v of
        None \<Rightarrow> Inr None
      | Some n \<Rightarrow> (case bind_int n of Inl e \<Rightarrow> Inl e | Inr w \<Rightarrow> Inr (Some w)))"

text \<open>
  The columns of \<open>dishes\<close> (\<open>name\<close> is \<open>NOT NULL UNIQUE\<close>, \<open>availability\<close> is
  \<open>NOT NULL\<close> and holds whatever integer was bound, \<open>stock\<close> may be NULL) and of
  \<open>users\<close>. The password column holds the output of \<open>generate_password_hash\<close>, kept
  symbolic: a salt and the password it was made from, which the program can only test
  through \<open>check_password_hash\<close>.
\<close>

record dishes_row =
  dishes_id :: sql_int
  dishes_name :: string
  dishes_category_id :: sql_int
  dishes_availability :: sql_int
  dishes_stock :: "sql_int option"

datatype pwhash = PwHash string string

record users_row =
  users_id :: sql_int
  users_username :: string
  users_password :: pwhash

text \<open>
  The store file: each table in rowid order, with the \<open>sqlite_sequence\<close> entry that
  \<open>AUTOINCREMENT\<close> keeps for it (the largest rowid ever used). The tables
  \<open>categories\<close> and \<open>sales\<close> are never read by a handler, and foreign keys are not
  enforced (no \<open>PRAGMA foreign_keys\<close> is issued), so they are left out.

  Every handler opens its own connection with \<open>get_db()\<close>. The file has one write
  lock: \<open>write_locked\<close> says that a connection which an earlier request left open
  still holds it. While it is held, a statement of another connection that writes raises
  \<open>sqlite3.OperationalError\<close> (database is locked) once the busy timeout has run out;
  statements that only read are not affected.
\<close>

record database =
  dishes :: "dishes_row list"
  seq_dishes :: sql_int
  users :: "users_row list"
  seq_users :: sql_int
  write_locked :: bool

definition empty_database :: database where
  "empty_database =
     \<lparr>dishes = [], seq_dishes = 0, users = [], seq_users = 0, write_locked = False\<rparr>"

text \<open>
  No handler has a \<open>finally\<close>: when \<open>cursor.execute\<close> raises, \<open>db.close()\<close> is
  not reached (the identity handlers have no \<open>db.close()\<close> at all) and the connection
  stays open until the interpreter frees it. After a failed constraint
  (\<open>sqlite3.IntegrityError\<close>, caught or not) the open transaction of that connection
  keeps the write lock; after an \<open>OverflowError\<close> of the binding, a full rowid
  sequence or a lock that could not be taken, it holds none.
\<close>

definition left_open :: "exn \<Rightarrow> database \<Rightarrow> database" where
  "left_open e db = (if e = IntegrityError then db\<lparr>write_locked := True\<rparr> else db)"

text \<open>The interpreter frees the connections left open; the lock is released.\<close>

definition collect :: "database \<Rightarrow> database" where
  "collect db = db\<lparr>write_locked := False\<rparr>"

text \<open>
  The rowid an \<open>AUTOINCREMENT\<close> table gives to a new row: one more than the largest
  rowid that is or ever was in the table; the insert fails with \<open>SQLITE_FULL\<close>
  (\<open>sqlite3.OperationalError\<close>) once the largest 64-bit value has been used.
\<close>

fun max_rowid :: "sql_int list \<Rightarrow> int" where
  "max_rowid [] = 0"
| "max_rowid (i # ids) = max (sint i) (max_rowid ids)"

definition new_rowid :: "sql_int \<Rightarrow> sql_int list \<Rightarrow> exn + sql_int" where
  "new_rowid seq ids =
     (let m = max (sint seq) (max_rowid ids)
      in if m = 2 ^ 63 - 1 then Inl OperationalError else Inr (word_of_int (m + 1)))"

definition insert_sorted :: "dishes_row \<Rightarrow> dishes_row list \<Rightarrow> dishes_row list" where
  "insert_sorted r rows = insort_key (\<lambda>x. sint (dishes_id x)) r rows"

text \<open>
  \<open>INSERT INTO dishes (name, category_id, availability, stock) VALUES (?, ?, ?, ?)\<close>:
  the write lock is taken first, then the rowid is chosen, then the \<open>UNIQUE\<close> index on
  \<open>name\<close> is checked. The result is \<open>cursor.lastrowid\<close> and the new store.
\<close>

definition insert_dish ::
  "string \<Rightarrow> sql_int \<Rightarrow> sql_int \<Rightarrow> sql_int option \<Rightarrow> database \<Rightarrow> exn + (int \<times> database)" where
  "insert_dish n c a s db =
     (if write_locked db then Inl OperationalError
      else (case new_rowid (seq_dishes db) (map dishes_id (dishes db)) of
              Inl e \<Rightarrow> Inl e
            | Inr i \<Rightarrow>
                if list_ex (\<lambda>r. dishes_name r = n) (dishes db) then Inl IntegrityError
                else Inr (sint i,
                       db\<lparr>dishes := insert_sorted
                              \<lparr>dishes_id = i, dishes_name = n, dishes_category_id = c,
                               dishes_availability = a, dishes_stock = s\<rparr> (dishes db),
                          seq_dishes := i\<rparr>)))"

text \<open>
  \<open>INSERT OR IGNORE INTO dishes (id, name, category_id, availability, stock)\<close> with an
  explicit id: the sequence entry is raised to the id in any case; the row is skipped
  when its id or its name is already in the table.
\<close>

definition insert_or_ignore_dish :: "dishes_row \<Rightarrow> database \<Rightarrow> database" where
  "insert_or_ignore_dish r db =
     (let db' = db\<lparr>seq_dishes :=
                   (if sint (seq_dishes db) < sint (dishes_id r) then dishes_id r else seq_dishes db)\<rparr>
      in if list_ex (\<lambda>x. dishes_id x = dishes_id r \<or> dishes_name x = dishes_name r) (dishes db)
         then db'
         else db'\<lparr>dishes := insert_sorted r (dishes db)\<rparr>)"

text \<open>
  \<open>UPDATE dishes SET name = ?, category_id = ?, availability = ?, stock = ? WHERE id = ?\<close>.
  The primary key lets at most one row match. The write lock is taken first, whether
  or not a row matches. The statement fails on the \<open>UNIQUE\<close> index when a row
  matches and another row already has the new name. The result is \<open>cursor.rowcount\<close>
  (the rows matched, changed or not) and the new store.
\<close>

definition update_dishes ::
  "string \<Rightarrow> sql_int \<Rightarrow> sql_int \<Rightarrow> sql_int option \<Rightarrow> sql_int \<Rightarrow> database \<Rightarrow> exn + (nat \<times> database)" where
  "update_dishes n c a s i db =
     (if write_locked db then Inl OperationalError
      else if list_ex (\<lambda>r. dishes_id r = i) (dishes db)
         \<and> list_ex (\<lambda>r. dishes_id r \<noteq> i \<and> dishes_name r = n) (dishes db)
      then Inl IntegrityError
      else Inr (length (filter (\<lambda>r. dishes_id r = i) (dishes db)),
             db\<lparr>dishes := map (\<lambda>r. if dishes_id r = i
                                   then r\<lparr>dishes_name := n, dishes_category_id := c,
                                          dishes_availability := a, dishes_stock := s\<rparr>
                                   else r) (dishes db)\<rparr>))"

text \<open>\<open>DELETE FROM dishes WHERE id = ?\<close>, with its rowcount.\<close>

definition delete_dishes :: "sql_int \<Rightarrow> database \<Rightarrow> exn + (nat \<times> database)" where
  "delete_dishes i db =
     (if write_locked db then Inl OperationalError
      else Inr (length (filter (\<lambda>r. dishes_id r = i) (dishes db)),
             db\<lparr>dishes := filter (\<lambda>r. dishes_id r \<noteq> i) (dishes db)\<rparr>))"

text \<open>\<open>UPDATE dishes SET availability = 0 WHERE id = ?\<close>, with its rowcount.\<close>

definition update_availability_0 :: "sql_int \<Rightarrow> database \<Rightarrow> exn + (nat \<times> database)" where
  "update_availability_0 i db =
     (if write_locked db then Inl OperationalError
      else Inr (length (filter (\<lambda>r. dishes_id r = i) (dishes db)),
             db\<lparr>dishes := map (\<lambda>r. if dishes_id r = i then r\<lparr>dishes_availability := 0\<rparr> else r)
                             (dishes db)\<rparr>))"

text \<open>\<open>UPDATE dishes SET stock = ? WHERE id = ?\<close>, with its rowcount.\<close>

definition update_stock :: "sql_int \<Rightarrow> sql_int \<Rightarrow> database \<Rightarrow> exn + (nat \<times> database)" where
  "update_stock s i db =
     (if write_locked db then Inl OperationalError
      else Inr (length (filter (\<lambda>r. dishes_id r = i) (dishes db)),
             db\<lparr>dishes := map (\<lambda>r. if dishes_id r = i then r\<lparr>dishes_stock := Some s\<rparr> else r)
                             (dishes db)\<rparr>))"

text \<open>\<open>dict(row)\<close> of a \<open>sqlite3.Row\<close> of \<open>dishes\<close>: the columns as stored.\<close>

definition row_dict :: "dishes_row \<Rightarrow> json" where
  "row_dict r =
     JObj [(''id'', JInt (sint (dishes_id r))),
           (''name'', JStr (dishes_name r)),
           (''category_id'', JInt (sint (dishes_category_id r))),
           (''availability'', JInt (sint (dishes_availability r))),
           (''stock'', (case dishes_stock r of None \<Rightarrow> JNull | Some s \<Rightarrow> JInt (sint s)))]"

text \<open>
  \<open>response_model=Dish\<close> applied to \<open>dict(row)\<close>: the integers 0 and 1 are read as
  booleans; any other stored value fails validation.
\<close>

definition response_model_Dish :: "dishes_row \<Rightarrow> exn + Dish" where
  "response_model_Dish r =
     (if dishes_availability r = 0 \<or> dishes_availability r = 1
      then Inr \<lparr>id' = sint (dishes_id r), name = dishes_name r,
                category_id = sint (dishes_category_id r),
                availability = (dishes_availability r = 1),
                stock = map_option sint (dishes_stock r)\<rparr>
      else Inl ResponseValidationError)"

section \<open>The menu service (\<open>main1.py\<close>)\<close>

text \<open>
  Modelled from the spec: the dependency \<open>oauth_scheme\<close> is the framework's
  \<open>OAuth2PasswordBearer\<close>, which is not part of the repository. Its argument is the
  token string of the request's authorization header, if there is one: without it the
  request is rejected with 401 before the handler body runs, with it the token is handed
  to the handler.
\<close>

definition oauth_scheme :: "string option \<Rightarrow> exn + string" where
  "oauth_scheme authorization =
     (case authorization of
        None \<Rightarrow> Inl (HTTPException 401 ''Not authenticated'')
      | Some token \<Rightarrow> Inr token)"

text \<open>
  \<open>POST /dishes\<close>, lines 62 to 83. The connection is closed on the 400 path and
  after the commit, and left open when \<open>cursor.execute\<close> raises.
\<close>

definition add_dish :: "string option \<Rightarrow> Dish \<Rightarrow> database \<Rightarrow> (exn + response) \<times> database" where
  "add_dish authorization dish db =
     (case oauth_scheme authorization of
        Inl e \<Rightarrow> (Inl e, db)
      | Inr token \<Rightarrow>
          (case bind_int (category_id dish) of
             Inl e \<Rightarrow> (Inl e, left_open e db)
           | Inr c \<Rightarrow>
               (case find (\<lambda>r. dishes_name r = name dish \<and> dishes_category_id r = c) (dishes db) of
                  Some r \<Rightarrow>
                    (Inl (HTTPException 400 ''Dish with this name already exists in the category''), db)
                | None \<Rightarrow>
                    (case bind_opt_int (stock dish) of
                       Inl e \<Rightarrow> (Inl e, left_open e db)
                     | Inr s \<Rightarrow>
                         (case insert_dish (name dish) c (bind_bool (availability dish)) s db of
                            Inl e \<Rightarrow> (Inl e, left_open e db)
                          | Inr (dish_id, db') \<Rightarrow>
                              (Inr (JSONResponse
                                      (JObj [(''message'', JStr ''Dish added successfully''),
                                             (''dish'', JObj (dict_unpack [(''id'', JInt dish_id)]
                                                                (Dish_dict dish)))])
                                      201),
                               db'))))))"

text \<open>
  \<open>PUT /dishes/{dish_id}\<close>, lines 86 to 109. The connection is closed on the 404
  path and on success, and left open when \<open>cursor.execute\<close> raises.
\<close>

definition update_dish ::
  "string option \<Rightarrow> int \<Rightarrow> Dish \<Rightarrow> database \<Rightarrow> (exn + response) \<times> database" where
  "update_dish authorization dish_id updated_dish db =
     (case oauth_scheme authorization of
        Inl e \<Rightarrow> (Inl e, db)
      | Inr token \<Rightarrow>
          (case bind_int (category_id updated_dish) of
             Inl e \<Rightarrow> (Inl e, left_open e db)
           | Inr c \<Rightarrow>
               (case bind_opt_int (stock updated_dish) of
                  Inl e \<Rightarrow> (Inl e, left_open e db)
                | Inr s \<Rightarrow>
                    (case bind_int dish_id of
                       Inl e \<Rightarrow> (Inl e, left_open e db)
                     | Inr i \<Rightarrow>
                         (case update_dishes (name updated_dish) c
                                 (bind_bool (availability updated_dish)) s i db of
                            Inl e \<Rightarrow> (Inl e, left_open e db)
                          | Inr (rowcount, db') \<Rightarrow>
                              if rowcount = 0
                              then (Inl (HTTPException 404 ''Dish not found''), db')
                              else (Inr (JSONResponse
                                           (JObj [(''message'', JStr ''Dish updated successfully''),
                                                  (''dish'', JObj (Dish_dict updated_dish))])
                                           200),
                                    db'))))))"

text \<open>\<open>DELETE /dishes/{dish_id}\<close>, lines 112 to 125.\<close>

definition delete_dish :: "string option \<Rightarrow> int \<Rightarrow> database \<Rightarrow> (exn + response) \<times> database" where
  "delete_dish authorization dish_id db =
     (case oauth_scheme authorization of
        Inl e \<Rightarrow> (Inl e, db)
      | Inr token \<Rightarrow>
          (case bind_int dish_id of
             Inl e \<Rightarrow> (Inl e, left_open e db)
           | Inr i \<Rightarrow>
               (case delete_dishes i db of
                  Inl e \<Rightarrow> (Inl e, left_open e db)
                | Inr (rowcount, db') \<Rightarrow>
                    if rowcount = 0
                    then (Inl (HTTPException 404 ''Dish not found''), db')
                    else (Inr (JSONResponse
                                 (JObj [(''message'', JStr ''Dish deleted successfully'')]) 200),
                          db'))))"

text \<open>\<open>GET /dishes/{dish_id}\<close>, lines 128 to 146; the store is only read.\<close>

definition get_dish_by_id :: "int \<Rightarrow> database \<Rightarrow> exn + Dish" where
  "get_dish_by_id dish_id db =
     (case bind_int dish_id of
        Inl e \<Rightarrow> Inl e
      | Inr i \<Rightarrow>
          (case find (\<lambda>r. dishes_id r = i) (dishes db) of
             None \<Rightarrow> Inl (HTTPException 404 (''Dish with ID '' @ str_int dish_id @ '' not found''))
           | Some dish \<Rightarrow> response_model_Dish dish))"

text \<open>\<open>PATCH /menu/dishes/{dish_id}/out-of-stock\<close>, lines 153 to 169.\<close>

definition mark_dish_out_of_stock :: "int \<Rightarrow> database \<Rightarrow> (exn + response) \<times> database" where
  "mark_dish_out_of_stock dish_id db =
     (case bind_int dish_id of
        Inl e \<Rightarrow> (Inl e, left_open e db)
      | Inr i \<Rightarrow>
          (case update_availability_0 i db of
             Inl e \<Rightarrow> (Inl e, left_open e db)
           | Inr (rowcount, db') \<Rightarrow>
               if rowcount = 0
               then (Inl (HTTPException 404 ''Dish not found''), db')
               else (Inr (JSONResponse
                            (JObj [(''message'',
                                    JStr (''Dish with ID '' @ str_int dish_id @ '' marked as out of stock''))])
                            200),
                     db')))"

text \<open>\<open>PATCH /menu/dishes/{dish_id}/stock\<close>, lines 172 to 188.\<close>

definition update_dish_stock :: "int \<Rightarrow> int \<Rightarrow> database \<Rightarrow> (exn + response) \<times> database" where
  "update_dish_stock dish_id stock_arg db =
     (case bind_int stock_arg of
        Inl e \<Rightarrow> (Inl e, left_open e db)
      | Inr s \<Rightarrow>
          (case bind_int dish_id of
             Inl e \<Rightarrow> (Inl e, left_open e db)
           | Inr i \<Rightarrow>
               (case update_stock s i db of
                  Inl e \<Rightarrow> (Inl e, left_open e db)
                | Inr (rowcount, db') \<Rightarrow>
                    if rowcount = 0
                    then (Inl (HTTPException 404 ''Dish not found''), db')
                    else (Inr (JSONResponse
                                 (JObj [(''message'',
                                         JStr (''Stock for dish with ID '' @ str_int dish_id
                                               @ '' updated to '' @ str_int stock_arg))])
                                 200),
                          db'))))"

text \<open>\<open>GET /admin/dishes/out-of-stock\<close>, lines 191 to 206.\<close>

definition get_out_of_stock_dishes :: "string option \<Rightarrow> database \<Rightarrow> exn + response" where
  "get_out_of_stock_dishes authorization db =
     (case oauth_scheme authorization of
        Inl e \<Rightarrow> Inl e
      | Inr token \<Rightarrow>
          (let found = filter (\<lambda>r. dishes_availability r = 0) (dishes db)
           in if found = []
              then Inr (JSONResponse (JObj [(''message'', JStr ''No out-of-stock dishes found'')]) 200)
              else Inr (Returned (JList (map row_dict found)))))"

text \<open>
  \<open>GET /admin/reports/inventory\<close>, lines 214 to 238. The query of two scalar
  subqueries always yields exactly one row.
\<close>

definition select_inventory :: "database \<Rightarrow> (int \<times> int) option" where
  "select_inventory db =
     Some (int (length (filter (\<lambda>r. dishes_availability r = 1) (dishes db))),
           int (length (filter (\<lambda>r. dishes_availability r = 0) (dishes db))))"

definition get_inventory_report :: "string option \<Rightarrow> database \<Rightarrow> exn + response" where
  "get_inventory_report authorization db =
     (case oauth_scheme authorization of
        Inl e \<Rightarrow> Inl e
      | Inr token \<Rightarrow>
          (case select_inventory db of
             None \<Rightarrow> Inr (JSONResponse (JObj [(''message'', JStr ''No inventory data found'')]) 200)
           | Some (in_stock, out_of_stock) \<Rightarrow>
               Inr (Returned (JObj [(''in_stock'', JInt in_stock),
                                    (''out_of_stock'', JInt out_of_stock)]))))"

text \<open>
  The startup hook, lines 255 to 304, as far as it touches \<open>dishes\<close>: the table is
  created if it is missing and the two predefined dishes are inserted unless present.
  The inserts of the hook are one transaction, which takes the write lock at its first
  insert; when the lock is held the hook raises and nothing is written.
\<close>

definition seed_dishes :: "dishes_row list" where
  "seed_dishes =
     [\<lparr>dishes_id = 1, dishes_name = ''Onion Pakoda'', dishes_category_id = 1,
       dishes_availability = bind_bool True, dishes_stock = Some 10\<rparr>,
      \<lparr>dishes_id = 2, dishes_name = ''Mixed Veg Pakoda'', dishes_category_id = 1,
       dishes_availability = bind_bool True, dishes_stock = Some 15\<rparr>]"

definition startup :: "database \<Rightarrow> (exn + unit) \<times> database" where
  "startup db =
     (if write_locked db then (Inl OperationalError, db)
      else (Inr (), fold insert_or_ignore_dish seed_dishes db))"

section \<open>The identity service (\<open>users.py\<close>)\<close>

text \<open>
  Signed credentials are symbolic, as the password hashes are: \<open>Signed key p\<close> is
  \<open>jwt.encode(p, key, algorithm='HS256')\<close>, and \<open>Text s\<close> is any other string (not a
  well-formed token); only \<open>Text []\<close> is the empty string. A signed payload has the
  two entries that \<open>create_jwt_token\<close> writes. Time is the clock's reading in whole
  seconds, the unit of the \<open>exp\<close> field of a token. \<open>jwt.decode\<close> checks the
  signature first and the expiry second.
\<close>

record payload =
  username :: string
  exp :: int

datatype token = Signed string payload | Text string

definition JWT_SECRET_KEY :: string where
  "JWT_SECRET_KEY = ''your_jwt_secret_key''"

definition jwt_encode :: "payload \<Rightarrow> string \<Rightarrow> token" where
  "jwt_encode p key = Signed key p"

definition jwt_decode :: "token \<Rightarrow> string \<Rightarrow> int \<Rightarrow> exn + payload" where
  "jwt_decode t key now =
     (case t of
        Text s \<Rightarrow> Inl DecodeError
      | Signed k p \<Rightarrow>
          if k \<noteq> key then Inl InvalidSignatureError
          else if exp p \<le> now then Inl ExpiredSignatureError
          else Inr p)"

definition generate_password_hash :: "string \<Rightarrow> string \<Rightarrow> pwhash" where
  "generate_password_hash salt password = PwHash salt password"

fun check_password_hash :: "pwhash \<Rightarrow> string \<Rightarrow> bool" where
  "check_password_hash (PwHash salt p) password = (p = password)"

text \<open>\<open>create_jwt_token\<close>, lines 21 to 28; \<open>now\<close> is what \<open>utcnow()\<close> reads.\<close>

definition create_jwt_token :: "string \<Rightarrow> int \<Rightarrow> token" where
  "create_jwt_token user now =
     (let expiration_time = now + 3600
      in jwt_encode \<lparr>username = user, exp = expiration_time\<rparr> JWT_SECRET_KEY)"

text \<open>
  A rendered \<open>index.html\<close>, always with status 200: the entries of the template
  context, and the cookie the response sets.
\<close>

record template_response =
  ctx_message :: "string option"
  ctx_action :: string
  ctx_token :: "token option"
  ctx_username :: "string option"
  cookie :: "(string \<times> token) option"

definition page :: "string option \<Rightarrow> string \<Rightarrow> template_response" where
  "page msg act =
     \<lparr>ctx_message = msg, ctx_action = act, ctx_token = None, ctx_username = None, cookie = None\<rparr>"

text \<open>
  \<open>INSERT INTO users (username, password) VALUES (?, ?)\<close>; the write lock is taken
  first, and the new rowid is larger than every rowid of the table, so the row goes last.
\<close>

definition insert_user :: "string \<Rightarrow> pwhash \<Rightarrow> database \<Rightarrow> exn + database" where
  "insert_user u h db =
     (if write_locked db then Inl OperationalError
      else (case new_rowid (seq_users db) (map users_id (users db)) of
              Inl e \<Rightarrow> Inl e
            | Inr i \<Rightarrow>
                if list_ex (\<lambda>r. users_username r = u) (users db) then Inl IntegrityError
                else Inr (db\<lparr>users := users db
                                  @ [\<lparr>users_id = i, users_username = u, users_password = h\<rparr>],
                             seq_users := i\<rparr>)))"

text \<open>\<open>UPDATE users SET password = ? WHERE username = ?\<close>.\<close>

definition update_users_password :: "pwhash \<Rightarrow> string \<Rightarrow> database \<Rightarrow> exn + database" where
  "update_users_password h u db =
     (if write_locked db then Inl OperationalError
      else Inr (db\<lparr>users := map (\<lambda>r. if users_username r = u
                                        then r\<lparr>users_password := h\<rparr> else r) (users db)\<rparr>))"

text \<open>
  \<open>POST /register\<close>, lines 41 to 54; \<open>salt\<close> is the random salt drawn by
  \<open>generate_password_hash\<close>. Only \<open>sqlite3.IntegrityError\<close> is caught.
\<close>

definition post_register ::
  "string \<Rightarrow> string \<Rightarrow> string \<Rightarrow> database \<Rightarrow> (exn + template_response) \<times> database" where
  "post_register user password salt db =
     (let hashed_password = generate_password_hash salt password
      in case insert_user user hashed_password db of
           Inl e \<Rightarrow>
             if e = IntegrityError
             then (Inr (page (Some ''Username already exists.'') ''register''), left_open e db)
             else (Inl e, left_open e db)
         | Inr db' \<Rightarrow> (Inr (page (Some ''User registered successfully!'') ''register''), db'))"

text \<open>\<open>POST /login\<close>, lines 61 to 80; the store is only read.\<close>

definition post_login :: "string \<Rightarrow> string \<Rightarrow> int \<Rightarrow> database \<Rightarrow> template_response" where
  "post_login user password now db =
     (let found = find (\<lambda>r. users_username r = user) (users db)
      in if (case found of None \<Rightarrow> False
                         | Some r \<Rightarrow> check_password_hash (users_password r) password)
         then (let t = create_jwt_token user now
               in \<lparr>ctx_message = Some ''Login successful. Welcome!'',
                   ctx_action = ''change-password'',
                   ctx_token = Some t, ctx_username = None,
                   cookie = Some (''jwt_token'', t)\<rparr>)
         else page (Some ''Invalid username or password.'') ''login'')"

text \<open>
  \<open>GET /change-password\<close>, lines 83 to 94. The credential is the cookie \<open>token\<close>,
  \<open>None\<close> when the request has no such cookie. Only \<open>jwt.ExpiredSignatureError\<close> is
  caught.
\<close>

definition get_change_password :: "token option \<Rightarrow> int \<Rightarrow> exn + template_response" where
  "get_change_password tok now =
     (case tok of
        None \<Rightarrow> Inr (page (Some ''Token is missing'') ''login'')
      | Some t \<Rightarrow>
          if t = Text [] then Inr (page (Some ''Token is missing'') ''login'')
          else (case jwt_decode t JWT_SECRET_KEY now of
                  Inl e \<Rightarrow>
                    if e = ExpiredSignatureError
                    then Inr (page (Some ''Expired token.'') ''login'')
                    else Inl e
                | Inr p \<Rightarrow>
                    Inr ((page None ''change-password'')\<lparr>ctx_username := Some (username p)\<rparr>)))"

text \<open>
  \<open>POST /change-password\<close>, lines 96 to 123. The credential is the form field
  \<open>token\<close>. Only \<open>jwt.ExpiredSignatureError\<close> is caught.
\<close>

definition post_change_password ::
  "string \<Rightarrow> string \<Rightarrow> token \<Rightarrow> string \<Rightarrow> int \<Rightarrow> database
     \<Rightarrow> (exn + template_response) \<times> database" where
  "post_change_password current_password new_password t salt now db =
     (if t = Text [] then (Inr (page (Some ''Token is missing'') ''login''), db)
      else (case jwt_decode t JWT_SECRET_KEY now of
              Inl e \<Rightarrow>
                if e = ExpiredSignatureError
                then (Inr (page (Some ''Expired token.'') ''login''), db)
                else (Inl e, db)
            | Inr p \<Rightarrow>
                (let found = find (\<lambda>r. users_username r = username p) (users db)
                 in if (case found of None \<Rightarrow> False
                                    | Some r \<Rightarrow> check_password_hash (users_password r) current_password)
                    then (let hashed_new_password = generate_password_hash salt new_password
                          in case update_users_password hashed_new_password (username p) db of
                               Inl e \<Rightarrow> (Inl e, left_open e db)
                             | Inr db' \<Rightarrow>
                                 (Inr ((page (Some ''Password changed successfully.'')
                                          ''change-password'')
                                         \<lparr>ctx_username := Some (username p)\<rparr>),
                                  db'))
                    else (Inr ((page (Some ''Incorrect current password.'') ''change-password'')
                                 \<lparr>ctx_username := Some (username p)\<rparr>),
                          db))))"

section \<open>The states of the store\<close>

text \<open>
  The stores the two services can produce: the startup hook runs on a new file, and from
  then on any request of either service, a restart, or the interpreter freeing the
  connections left open may follow. Requests that only read the store are left out.
\<close>

inductive reachable :: "database \<Rightarrow> bool" where
  boot: "reachable (snd (startup empty_database))"
| restart: "reachable db \<Longrightarrow> reachable (snd (startup db))"
| collected: "reachable db \<Longrightarrow> reachable (collect db)"
| added: "reachable db \<Longrightarrow> reachable (snd (add_dish authorization dish db))"
| updated: "reachable db \<Longrightarrow> reachable (snd (update_dish authorization dish_id dish db))"
| deleted: "reachable db \<Longrightarrow> reachable (snd (delete_dish authorization dish_id db))"
| marked: "reachable db \<Longrightarrow> reachable (snd (mark_dish_out_of_stock dish_id db))"
| restocked: "reachable db \<Longrightarrow> reachable (snd (update_dish_stock dish_id n db))"
| registered: "reachable db \<Longrightarrow> reachable (snd (post_register user password salt db))"
| password_changed:
    "reachable db \<Longrightarrow> reachable (snd (post_change_password current new t salt now db))"

text \<open>Every availability cell holds a bound Python \<open>bool\<close>.\<close>

definition boolean_cells :: "dishes_row list \<Rightarrow> bool" where
  "boolean_cells rows = list_all (\<lambda>r. dishes_availability r = 0 \<or> dishes_availability r = 1) rows"

text \<open>A dish id, as the client writes it, is the rowid of some row.\<close>

definition dish_present :: "int \<Rightarrow> database \<Rightarrow> bool" where
  "dish_present dish_id db = list_ex (\<lambda>r. sint (dishes_id r) = dish_id) (dishes db)"

text \<open>An integer that fits the store's INTEGER type.\<close>

definition fits :: "int \<Rightarrow> bool" where
  "fits n = (- (2 ^ 63) \<le> n \<and> n < 2 ^ 63)"

definition fits_opt :: "int option \<Rightarrow> bool" where
  "fits_opt v = (case v of None \<Rightarrow> True | Some n \<Rightarrow> fits n)"

text \<open>Notions the statements below use: what is in the table, and the next rowid.\<close>

definition name_present :: "string \<Rightarrow> database \<Rightarrow> bool" where
  "name_present n db = list_ex (\<lambda>r. dishes_name r = n) (dishes db)"

definition pair_present :: "string \<Rightarrow> int \<Rightarrow> database \<Rightarrow> bool" where
  "pair_present n c db =
     list_ex (\<lambda>r. dishes_name r = n \<and> sint (dishes_category_id r) = c) (dishes db)"

definition name_taken_by_other :: "string \<Rightarrow> int \<Rightarrow> database \<Rightarrow> bool" where
  "name_taken_by_other n dish_id db =
     list_ex (\<lambda>r. sint (dishes_id r) \<noteq> dish_id \<and> dishes_name r = n) (dishes db)"

definition next_rowid :: "database \<Rightarrow> int" where
  "next_rowid db = max (sint (seq_dishes db)) (max_rowid (map dishes_id (dishes db))) + 1"

section \<open>Facts about binding, rowids and the seeded store\<close>

lemma sint_word_of_int_fits: "fits n \<Longrightarrow> sint (word_of_int n :: sql_int) = n"
  by (simp add: fits_def signed_of_int signed_take_bit_int_eq_self)

lemma fits_sint: "fits (sint (w :: sql_int))"
  using sint_ge [of w] sint_lt [of w] by (simp add: fits_def)

lemma bind_int_sint: "bind_int (sint w) = Inr w"
  using fits_sint [of w] by (simp add: bind_int_def fits_def)

lemma bind_int_fits: "fits n \<Longrightarrow> bind_int n = Inr (word_of_int n)"
  by (simp add: bind_int_def fits_def)

lemma bind_int_overflow: "\<not> fits n \<Longrightarrow> bind_int n = Inl OverflowError"
  by (auto simp add: bind_int_def fits_def)

lemma bind_opt_int_fits: "fits_opt v \<Longrightarrow> bind_opt_int v = Inr (map_option word_of_int v)"
  by (cases v) (simp_all add: bind_opt_int_def fits_opt_def bind_int_fits)

lemma bind_opt_int_overflow: "\<not> fits_opt v \<Longrightarrow> bind_opt_int v = Inl OverflowError"
  by (cases v) (simp_all add: bind_opt_int_def fits_opt_def bind_int_overflow)

lemma word_eq_iff_sint: "fits n \<Longrightarrow> (w = (word_of_int n :: sql_int)) = (sint w = n)"
  using sint_word_of_int_fits by fastforce

lemma max_rowid_ge: "i \<in> set ids \<Longrightarrow> sint i \<le> max_rowid ids"
  by (induction ids) auto

lemma max_rowid_fits: "fits (max_rowid ids)"
proof (induction ids)
  case Nil
  show ?case by (simp add: fits_def)
next
  case (Cons i ids)
  then show ?case using fits_sint [of i] by (simp add: fits_def max_def)
qed

lemma find_insert_sorted:
  "P r \<Longrightarrow> \<not> list_ex P rows \<Longrightarrow> find P (insert_sorted r rows) = Some r"
  unfolding insert_sorted_def by (induction rows) (auto simp add: list_ex_iff)

lemma dict_unpack_id: "dict_unpack [(''id'', JInt i)] (Dish_dict d) = Dish_dict d"
  by (simp add: dict_unpack_def Dish_dict_def)

lemma pair_present_find:
  assumes "pair_present n c db"
  shows "\<exists>r. find (\<lambda>r. dishes_name r = n \<and> dishes_category_id r = word_of_int c) (dishes db) = Some r"
proof -
  from assms obtain r where r: "r \<in> set (dishes db)" "dishes_name r = n"
    "sint (dishes_category_id r) = c"
    by (auto simp add: pair_present_def list_ex_iff)
  then have "dishes_category_id r = word_of_int c" by auto
  with r have "\<exists>x \<in> set (dishes db). dishes_name x = n \<and> dishes_category_id x = word_of_int c"
    by blast
  then show ?thesis
    by (cases "find (\<lambda>r. dishes_name r = n \<and> dishes_category_id r = word_of_int c) (dishes db)")
       (auto simp add: find_None_iff)
qed

lemma pair_present_fits: "pair_present n c db \<Longrightarrow> fits c"
  using fits_sint by (auto simp add: pair_present_def list_ex_iff)

lemma new_rowid_next:
  assumes "next_rowid db < 2 ^ 63"
  shows "new_rowid (seq_dishes db) (map dishes_id (dishes db)) = Inr (word_of_int (next_rowid db))"
  using assms by (auto simp add: new_rowid_def next_rowid_def Let_def max_def)

lemma next_rowid_fits: "next_rowid db < 2 ^ 63 \<Longrightarrow> fits (next_rowid db)"
  using fits_sint [of "seq_dishes db"] max_rowid_fits [of "map dishes_id (dishes db)"]
  by (simp add: next_rowid_def fits_def max_def split: if_splits)

lemma next_rowid_fresh: "\<not> dish_present (next_rowid db) db"
proof
  assume "dish_present (next_rowid db) db"
  then obtain r where r: "r \<in> set (dishes db)" "sint (dishes_id r) = next_rowid db"
    by (auto simp add: dish_present_def list_ex_iff)
  from r(1) have "sint (dishes_id r) \<le> max_rowid (map dishes_id (dishes db))"
    by (intro max_rowid_ge) simp
  with r(2) show False by (simp add: next_rowid_def)
qed

lemma left_open_overflow [simp]: "left_open OverflowError db = db"
  by (simp add: left_open_def)

lemma left_open_operational [simp]: "left_open OperationalError db = db"
  by (simp add: left_open_def)

lemma left_open_integrity [simp]: "left_open IntegrityError db = db\<lparr>write_locked := True\<rparr>"
  by (simp add: left_open_def)

lemma dishes_left_open [simp]: "dishes (left_open e db) = dishes db"
  by (simp add: left_open_def)

lemma users_left_open [simp]: "users (left_open e db) = users db"
  by (simp add: left_open_def)

lemma bind_int_error: "bind_int n = Inl e \<Longrightarrow> e = OverflowError"
  by (simp add: bind_int_def split: if_splits)

lemma bind_opt_int_error: "bind_opt_int v = Inl e \<Longrightarrow> e = OverflowError"
  by (auto simp add: bind_opt_int_def dest: bind_int_error split: option.splits sum.splits)

lemma seeded_store:
  "snd (startup empty_database) =
     \<lparr>dishes =
        [\<lparr>dishes_id = 1, dishes_name = ''Onion Pakoda'', dishes_category_id = 1,
          dishes_availability = 1, dishes_stock = Some 10\<rparr>,
         \<lparr>dishes_id = 2, dishes_name = ''Mixed Veg Pakoda'', dishes_category_id = 1,
          dishes_availability = 1, dishes_stock = Some 15\<rparr>],
      seq_dishes = 2, users = [], seq_users = 0, write_locked = False\<rparr>"
  by (simp add: startup_def seed_dishes_def insert_or_ignore_dish_def empty_database_def
        insert_sorted_def bind_bool_def Let_def)

section \<open>Adding a dish\<close>

text \<open>
  C1, as amended. When no row of \<open>dishes\<close> has the submitted name (in whatever
  category), the submitted integers fit the store's 64-bit INTEGER, the rowid sequence
  is not used up and the write lock of the store is free, \<open>add_dish\<close> succeeds with
  status 201, the table gains exactly one row under the next rowid, and
  \<open>get_dish_by_id\<close> with that rowid returns the submitted name, category_id,
  availability and stock.
\<close>

theorem add_dish_then_get:
  assumes "\<not> name_present (name dish) db"
    and "fits (category_id dish)" and "fits_opt (stock dish)"
    and "next_rowid db < 2 ^ 63"
    and "\<not> write_locked db"
  shows "fst (add_dish (Some token) dish db) =
           Inr (JSONResponse (JObj [(''message'', JStr ''Dish added successfully''),
                                    (''dish'', JObj (Dish_dict dish))]) 201)
         \<and> \<not> dish_present (next_rowid db) db
         \<and> dish_present (next_rowid db) (snd (add_dish (Some token) dish db))
         \<and> length (dishes (snd (add_dish (Some token) dish db))) = Suc (length (dishes db))
         \<and> get_dish_by_id (next_rowid db) (snd (add_dish (Some token) dish db)) =
             Inr (dish\<lparr>id' := next_rowid db\<rparr>)"
proof -
  let ?c = "word_of_int (category_id dish) :: sql_int"
  let ?i = "word_of_int (next_rowid db) :: sql_int"
  let ?row = "\<lparr>dishes_id = ?i, dishes_name = name dish, dishes_category_id = ?c,
               dishes_availability = bind_bool (availability dish),
               dishes_stock = map_option word_of_int (stock dish)\<rparr>"
  let ?db' = "db\<lparr>dishes := insert_sorted ?row (dishes db), seq_dishes := ?i\<rparr>"
  have fi: "fits (next_rowid db)" using assms(4) by (rule next_rowid_fits)
  have si: "sint ?i = next_rowid db" using fi by (rule sint_word_of_int_fits)
  from assms(1) have nofind:
    "find (\<lambda>r. dishes_name r = name dish \<and> dishes_category_id r = ?c) (dishes db) = None"
    by (auto simp add: name_present_def list_ex_iff find_None_iff)
  from assms(1) assms(5) have ins:
    "insert_dish (name dish) ?c (bind_bool (availability dish))
       (map_option word_of_int (stock dish)) db = Inr (next_rowid db, ?db')"
    by (simp add: insert_dish_def new_rowid_next [OF assms(4)] name_present_def si)
  have run: "add_dish (Some token) dish db =
      (Inr (JSONResponse (JObj [(''message'', JStr ''Dish added successfully''),
                                    (''dish'', JObj (Dish_dict dish))]) 201), ?db')"
    by (simp add: add_dish_def oauth_scheme_def bind_int_fits [OF assms(2)] nofind
          bind_opt_int_fits [OF assms(3)] ins dict_unpack_id)
  have fresh: "\<not> list_ex (\<lambda>r. dishes_id r = ?i) (dishes db)"
    using next_rowid_fresh [of db] si
    by (auto simp add: dish_present_def list_ex_iff)
  have found: "find (\<lambda>r. dishes_id r = ?i) (insert_sorted ?row (dishes db)) = Some ?row"
    by (rule find_insert_sorted) (simp, rule fresh)
  have stock_back: "map_option sint (map_option (word_of_int :: int \<Rightarrow> sql_int) (stock dish)) = stock dish"
    using assms(3) by (cases "stock dish") (simp_all add: fits_opt_def sint_word_of_int_fits)
  have model: "response_model_Dish ?row = Inr (dish\<lparr>id' := next_rowid db\<rparr>)"
    using si stock_back
    by (simp add: response_model_Dish_def bind_bool_def sint_word_of_int_fits [OF assms(2)])
  have get: "get_dish_by_id (next_rowid db) ?db' = Inr (dish\<lparr>id' := next_rowid db\<rparr>)"
    by (simp add: get_dish_by_id_def bind_int_fits [OF fi] found model)
  have pres: "dish_present (next_rowid db) ?db'"
    using si by (auto simp add: dish_present_def list_ex_iff insert_sorted_def set_insort_key)
  have len: "length (dishes ?db') = Suc (length (dishes db))"
    by (simp add: insert_sorted_def)
  show ?thesis
    using run get pres len next_rowid_fresh [of db] by simp
qed

theorem add_dish_then_get_witness:
  "\<not> name_present ''Dal Tadka'' (snd (startup empty_database))
   \<and> fits 5 \<and> fits_opt (Some 20)
   \<and> next_rowid (snd (startup empty_database)) = 3
   \<and> \<not> write_locked (snd (startup empty_database))
   \<and> get_dish_by_id 3
        (snd (add_dish (Some ''t'')
           \<lparr>id' = 0, name = ''Dal Tadka'', category_id = 5, availability = True, stock = Some 20\<rparr>
           (snd (startup empty_database)))) =
       Inr \<lparr>id' = 3, name = ''Dal Tadka'', category_id = 5, availability = True, stock = Some 20\<rparr>"
proof -
  let ?d = "\<lparr>id' = 0, name = ''Dal Tadka'', category_id = 5, availability = True, stock = Some 20\<rparr>"
  have h1: "\<not> name_present (name ?d) (snd (startup empty_database))"
    by (simp add: seeded_store name_present_def)
  have h2: "fits (category_id ?d)" by (simp add: fits_def)
  have h3: "fits_opt (stock ?d)" by (simp add: fits_opt_def fits_def)
  have n: "next_rowid (snd (startup empty_database)) = 3"
    by (simp add: seeded_store next_rowid_def)
  have h4: "next_rowid (snd (startup empty_database)) < 2 ^ 63" by (simp add: n)
  have h5: "\<not> write_locked (snd (startup empty_database))"
    by (simp add: seeded_store)
  show ?thesis
    using add_dish_then_get [OF h1 h2 h3 h4 h5, of "''t''"] h1 h2 h3 n h5 by simp
qed

text \<open>
  C1 as stated fails: on the seeded store the pair (Onion Pakoda, category 2) is not in the
  table, yet the insert runs into the \<open>UNIQUE\<close> index on \<open>name\<close> and the
  \<open>sqlite3.IntegrityError\<close> leaves the handler uncaught; the connection it leaves open
  holds the write lock.
\<close>

theorem add_dish_new_pair_counterexample:
  "\<not> pair_present ''Onion Pakoda'' 2 (snd (startup empty_database))
   \<and> add_dish (Some ''t'')
        \<lparr>id' = 0, name = ''Onion Pakoda'', category_id = 2, availability = True, stock = Some 20\<rparr>
        (snd (startup empty_database)) =
       (Inl IntegrityError, (snd (startup empty_database))\<lparr>write_locked := True\<rparr>)"
  by (simp add: seeded_store pair_present_def add_dish_def oauth_scheme_def bind_int_def
        bind_opt_int_def insert_dish_def new_rowid_def bind_bool_def Let_def)

text \<open>
  C3. When a row with the submitted name and category_id exists, \<open>add_dish\<close> raises the
  400 \<open>HTTPException\<close> and the store, hence the row count of \<open>dishes\<close>, is unchanged.
\<close>

theorem add_dish_duplicate_pair:
  assumes "pair_present (name dish) (category_id dish) db"
  shows "add_dish (Some token) dish db =
           (Inl (HTTPException 400 ''Dish with this name already exists in the category''), db)
         \<and> length (dishes (snd (add_dish (Some token) dish db))) = length (dishes db)"
proof -
  from assms have f: "fits (category_id dish)" by (rule pair_present_fits)
  from pair_present_find [OF assms] obtain r where
    "find (\<lambda>r. dishes_name r = name dish \<and> dishes_category_id r = word_of_int (category_id dish))
       (dishes db) = Some r" ..
  with f show ?thesis
    by (simp add: add_dish_def oauth_scheme_def bind_int_fits)
qed

theorem add_dish_duplicate_pair_witness:
  "pair_present ''Onion Pakoda'' 1 (snd (startup empty_database))
   \<and> add_dish (Some ''t'')
        \<lparr>id' = 0, name = ''Onion Pakoda'', category_id = 1, availability = True, stock = None\<rparr>
        (snd (startup empty_database)) =
       (Inl (HTTPException 400 ''Dish with this name already exists in the category''),
        snd (startup empty_database))"
proof -
  have h: "pair_present ''Onion Pakoda'' 1 (snd (startup empty_database))"
    by (simp add: seeded_store pair_present_def)
  show ?thesis
    using h add_dish_duplicate_pair
      [of "\<lparr>id' = 0, name = ''Onion Pakoda'', category_id = 1, availability = True, stock = None\<rparr>"
          "snd (startup empty_database)" "''t''"]
    by simp
qed

text \<open>
  C2. The claim fails on the code. On the seeded store a dish submitted with id 0 is
  stored under rowid 3, and the 201 response carries the dish with id 0: in
  \<open>{"id": dish_id, **dish.dict()}\<close> the \<open>id\<close> of \<open>dish.dict()\<close> replaces the
  \<open>lastrowid\<close> written first.
\<close>

theorem add_dish_response_id:
  "add_dish (Some ''t'')
     \<lparr>id' = 0, name = ''Dal Tadka'', category_id = 5, availability = True, stock = Some 20\<rparr>
     (snd (startup empty_database)) =
   (Inr (JSONResponse
           (JObj [(''message'', JStr ''Dish added successfully''),
                  (''dish'', JObj [(''id'', JInt 0), (''name'', JStr ''Dal Tadka''),
                                   (''category_id'', JInt 5), (''availability'', JBool True),
                                   (''stock'', JInt 20)])])
           201),
    \<lparr>dishes =
       [\<lparr>dishes_id = 1, dishes_name = ''Onion Pakoda'', dishes_category_id = 1,
         dishes_availability = 1, dishes_stock = Some 10\<rparr>,
        \<lparr>dishes_id = 2, dishes_name = ''Mixed Veg Pakoda'', dishes_category_id = 1,
         dishes_availability = 1, dishes_stock = Some 15\<rparr>,
        \<lparr>dishes_id = 3, dishes_name = ''Dal Tadka'', dishes_category_id = 5,
         dishes_availability = 1, dishes_stock = Some 20\<rparr>],
     seq_dishes = 3, users = [], seq_users = 0, write_locked = False\<rparr>)"
  by (simp add: seeded_store add_dish_def oauth_scheme_def bind_int_def bind_opt_int_def
        insert_dish_def new_rowid_def bind_bool_def insert_sorted_def dict_unpack_def Dish_dict_def)

section \<open>The inventory report\<close>

text \<open>Every write of either service keeps the availability cells boolean.\<close>

lemma boolean_cells_insert_sorted:
  "boolean_cells rows \<Longrightarrow> dishes_availability r = 0 \<or> dishes_availability r = 1
     \<Longrightarrow> boolean_cells (insert_sorted r rows)"
  by (auto simp add: boolean_cells_def insert_sorted_def list_all_iff set_insort_key)

lemma bind_bool_cases: "bind_bool b = 0 \<or> bind_bool b = 1"
  by (simp add: bind_bool_def)

lemma boolean_cells_insert_or_ignore:
  "boolean_cells (dishes db) \<Longrightarrow> dishes_availability r = 0 \<or> dishes_availability r = 1
     \<Longrightarrow> boolean_cells (dishes (insert_or_ignore_dish r db))"
  by (simp add: insert_or_ignore_dish_def Let_def boolean_cells_insert_sorted)

lemma boolean_cells_startup:
  "boolean_cells (dishes db) \<Longrightarrow> boolean_cells (dishes (snd (startup db)))"
  by (simp add: startup_def seed_dishes_def boolean_cells_insert_or_ignore bind_bool_cases)

lemma boolean_cells_insert_dish:
  "boolean_cells (dishes db) \<Longrightarrow> insert_dish n c (bind_bool b) s db = Inr (i, db')
     \<Longrightarrow> boolean_cells (dishes db')"
  by (auto simp add: insert_dish_def boolean_cells_insert_sorted bind_bool_cases
        split: sum.splits if_splits)

lemma boolean_cells_add_dish:
  "boolean_cells (dishes db) \<Longrightarrow> boolean_cells (dishes (snd (add_dish authorization dish db)))"
  by (auto simp add: add_dish_def dest: boolean_cells_insert_dish
        split: sum.splits option.splits)

lemma boolean_cells_update_dishes:
  "boolean_cells (dishes db) \<Longrightarrow> update_dishes n c (bind_bool b) s i db = Inr (k, db')
     \<Longrightarrow> boolean_cells (dishes db')"
  using bind_bool_cases [of b]
  by (auto simp add: update_dishes_def boolean_cells_def list_all_iff split: if_splits)

lemma boolean_cells_update_dish:
  "boolean_cells (dishes db)
     \<Longrightarrow> boolean_cells (dishes (snd (update_dish authorization dish_id dish db)))"
  by (auto simp add: update_dish_def dest: boolean_cells_update_dishes
        split: sum.splits option.splits)

lemma boolean_cells_delete_dish:
  "boolean_cells (dishes db)
     \<Longrightarrow> boolean_cells (dishes (snd (delete_dish authorization dish_id db)))"
  by (auto simp add: delete_dish_def delete_dishes_def boolean_cells_def list_all_iff
        split: sum.splits)

lemma boolean_cells_mark:
  "boolean_cells (dishes db)
     \<Longrightarrow> boolean_cells (dishes (snd (mark_dish_out_of_stock dish_id db)))"
  by (auto simp add: mark_dish_out_of_stock_def update_availability_0_def boolean_cells_def
        list_all_iff split: sum.splits)

lemma boolean_cells_restock:
  "boolean_cells (dishes db)
     \<Longrightarrow> boolean_cells (dishes (snd (update_dish_stock dish_id n db)))"
  by (auto simp add: update_dish_stock_def update_stock_def boolean_cells_def
        list_all_iff split: sum.splits)

lemma dishes_post_register: "dishes (snd (post_register user password salt db)) = dishes db"
  by (auto simp add: post_register_def insert_user_def Let_def split: sum.splits)

lemma dishes_post_change_password:
  "dishes (snd (post_change_password current new t salt now db)) = dishes db"
  by (auto simp add: post_change_password_def update_users_password_def Let_def
        split: sum.splits if_splits)

lemma reachable_boolean_cells: "reachable db \<Longrightarrow> boolean_cells (dishes db)"
proof (induction rule: reachable.induct)
  case boot
  show ?case
    by (rule boolean_cells_startup) (simp add: empty_database_def boolean_cells_def)
next
  case (restart db)
  then show ?case by (simp add: boolean_cells_startup)
next
  case (collected db)
  then show ?case by (simp add: collect_def)
next
  case (added db authorization dish)
  then show ?case by (simp add: boolean_cells_add_dish)
next
  case (updated db authorization dish_id dish)
  then show ?case by (simp add: boolean_cells_update_dish)
next
  case (deleted db authorization dish_id)
  then show ?case by (simp add: boolean_cells_delete_dish)
next
  case (marked db dish_id)
  then show ?case by (simp add: boolean_cells_mark)
next
  case (restocked db dish_id n)
  then show ?case by (simp add: boolean_cells_restock)
next
  case (registered db user password salt)
  then show ?case by (simp add: dishes_post_register)
next
  case (password_changed db current new t salt now)
  then show ?case by (simp add: dishes_post_change_password)
qed

lemma boolean_cells_count:
  "boolean_cells rows \<Longrightarrow>
     length (filter (\<lambda>r. dishes_availability r = 1) rows)
       + length (filter (\<lambda>r. dishes_availability r = 0) rows) = length rows"
  by (induction rows) (auto simp add: boolean_cells_def)

text \<open>
  C4. In every store the services can produce, the inventory report answers with the two
  counts, and \<open>in_stock + out_of_stock\<close> is the number of rows of \<open>dishes\<close>.
\<close>

theorem inventory_report_total:
  assumes "reachable db"
  shows "get_inventory_report (Some token) db =
           Inr (Returned (JObj
             [(''in_stock'', JInt (int (length (filter (\<lambda>r. dishes_availability r = 1) (dishes db))))),
              (''out_of_stock'', JInt (int (length (filter (\<lambda>r. dishes_availability r = 0) (dishes db)))))]))
         \<and> int (length (filter (\<lambda>r. dishes_availability r = 1) (dishes db)))
           + int (length (filter (\<lambda>r. dishes_availability r = 0) (dishes db)))
           = int (length (dishes db))"
proof -
  from assms have "boolean_cells (dishes db)" by (rule reachable_boolean_cells)
  then have "length (filter (\<lambda>r. dishes_availability r = 1) (dishes db))
       + length (filter (\<lambda>r. dishes_availability r = 0) (dishes db)) = length (dishes db)"
    by (rule boolean_cells_count)
  then have "int (length (filter (\<lambda>r. dishes_availability r = 1) (dishes db)))
           + int (length (filter (\<lambda>r. dishes_availability r = 0) (dishes db)))
           = int (length (dishes db))"
    by linarith
  then show ?thesis
    by (simp add: get_inventory_report_def oauth_scheme_def select_inventory_def)
qed

theorem inventory_report_total_witness:
  "reachable (snd (mark_dish_out_of_stock 1 (snd (startup empty_database))))
   \<and> get_inventory_report (Some ''t'') (snd (mark_dish_out_of_stock 1 (snd (startup empty_database)))) =
       Inr (Returned (JObj [(''in_stock'', JInt 1), (''out_of_stock'', JInt 1)]))
   \<and> length (dishes (snd (mark_dish_out_of_stock 1 (snd (startup empty_database))))) = 2"
proof -
  have h: "reachable (snd (mark_dish_out_of_stock 1 (snd (startup empty_database))))"
    by (intro reachable.marked reachable.boot)
  have e: "dishes (snd (mark_dish_out_of_stock 1 (snd (startup empty_database)))) =
        [\<lparr>dishes_id = 1, dishes_name = ''Onion Pakoda'', dishes_category_id = 1,
          dishes_availability = 0, dishes_stock = Some 10\<rparr>,
         \<lparr>dishes_id = 2, dishes_name = ''Mixed Veg Pakoda'', dishes_category_id = 1,
          dishes_availability = 1, dishes_stock = Some 15\<rparr>]"
    by (simp add: seeded_store mark_dish_out_of_stock_def bind_int_def update_availability_0_def)
  show ?thesis
    using h inventory_report_total [OF h, of "''t''"] by (simp add: e)
qed

section \<open>Marking a dish out of stock\<close>

lemma dish_present_word:
  "fits dish_id \<Longrightarrow>
     list_ex (\<lambda>r. dishes_id r = word_of_int dish_id) (dishes db) = dish_present dish_id db"
  by (simp add: dish_present_def list_ex_iff word_eq_iff_sint)

lemma dish_present_fits: "dish_present dish_id db \<Longrightarrow> fits dish_id"
  using fits_sint by (auto simp add: dish_present_def list_ex_iff)

lemma matched_rows_nonempty:
  "list_ex (\<lambda>r. dishes_id r = i) rows \<Longrightarrow> length (filter (\<lambda>r. dishes_id r = i) rows) \<noteq> 0"
  by (auto simp add: list_ex_iff filter_empty_conv)

lemma matched_rows_empty:
  "\<not> list_ex (\<lambda>r. dishes_id r = i) rows \<Longrightarrow> filter (\<lambda>r. dishes_id r = i) rows = []"
  by (auto simp add: list_ex_iff filter_empty_conv)

lemma find_marked:
  "find (\<lambda>r. sint (dishes_id r) = j)
        (map (\<lambda>r. if sint (dishes_id r) = j then r\<lparr>dishes_availability := 0\<rparr> else r) rows) =
     map_option (\<lambda>r. r\<lparr>dishes_availability := 0\<rparr>) (find (\<lambda>r. sint (dishes_id r) = j) rows)"
  by (induction rows) auto

lemma mark_present:
  assumes "dish_present dish_id db" and "\<not> write_locked db"
  shows "mark_dish_out_of_stock dish_id db =
           (Inr (JSONResponse
                   (JObj [(''message'',
                           JStr (''Dish with ID '' @ str_int dish_id @ '' marked as out of stock''))])
                   200),
            db\<lparr>dishes := map (\<lambda>r. if sint (dishes_id r) = dish_id
                                  then r\<lparr>dishes_availability := 0\<rparr> else r) (dishes db)\<rparr>)"
proof -
  have f: "fits dish_id" using assms(1) by (rule dish_present_fits)
  have m: "list_ex (\<lambda>r. dishes_id r = word_of_int dish_id) (dishes db)"
    using assms(1) by (simp add: dish_present_word [OF f])
  have eq: "(\<lambda>r. if dishes_id r = word_of_int dish_id then r\<lparr>dishes_availability := 0\<rparr> else r)
          = (\<lambda>r. if sint (dishes_id r) = dish_id then r\<lparr>dishes_availability := 0\<rparr> else r)"
    by (simp add: word_eq_iff_sint [OF f])
  show ?thesis
    using matched_rows_nonempty [OF m] assms(2)
    by (simp add: mark_dish_out_of_stock_def bind_int_fits [OF f] update_availability_0_def eq)
qed

lemma list_ex_marked:
  "list_ex (\<lambda>r. sint (dishes_id r) = j)
     (map (\<lambda>r. if sint (dishes_id r) = i then r\<lparr>dishes_availability := 0\<rparr> else r) rows)
   = list_ex (\<lambda>r. sint (dishes_id r) = j) rows"
  by (induction rows) auto

lemma dish_present_marked:
  "dish_present dish_id
     (db\<lparr>dishes := map (\<lambda>r. if sint (dishes_id r) = i
                            then r\<lparr>dishes_availability := 0\<rparr> else r) (dishes db)\<rparr>)
   = dish_present dish_id db"
  by (simp add: dish_present_def list_ex_marked)

text \<open>
  While the write lock is free, marking does what is asked of it: for a dish id that is
  in the table, \<open>mark_dish_out_of_stock\<close> answers 200 and leaves the store as it was
  except that the availability cell of the row with that id is 0. Marking again gives the
  same answer and the same store, and \<open>get_dish_by_id\<close> then shows the dish with
  availability false and its other fields as stored.
\<close>

lemma mark_dish_out_of_stock_frame:
  assumes "dish_present dish_id db" and "\<not> write_locked db"
  shows "mark_dish_out_of_stock dish_id db =
           (Inr (JSONResponse
                   (JObj [(''message'',
                           JStr (''Dish with ID '' @ str_int dish_id @ '' marked as out of stock''))])
                   200),
            db\<lparr>dishes := map (\<lambda>r. if sint (dishes_id r) = dish_id
                                  then r\<lparr>dishes_availability := 0\<rparr> else r) (dishes db)\<rparr>)
         \<and> mark_dish_out_of_stock dish_id (snd (mark_dish_out_of_stock dish_id db)) =
             mark_dish_out_of_stock dish_id db
         \<and> (\<exists>r. find (\<lambda>r. sint (dishes_id r) = dish_id) (dishes db) = Some r
                \<and> get_dish_by_id dish_id (snd (mark_dish_out_of_stock dish_id db)) =
                    Inr \<lparr>id' = dish_id, name = dishes_name r,
                         category_id = sint (dishes_category_id r),
                         availability = False,
                         stock = map_option sint (dishes_stock r)\<rparr>)"
proof -
  let ?mark = "\<lambda>r. if sint (dishes_id r) = dish_id then r\<lparr>dishes_availability := 0\<rparr> else r"
  let ?db' = "db\<lparr>dishes := map ?mark (dishes db)\<rparr>"
  have f: "fits dish_id" using assms(1) by (rule dish_present_fits)
  note once = mark_present [OF assms]
  have "dish_present dish_id ?db'" using assms(1) by (simp add: dish_present_marked)
  moreover have "\<not> write_locked ?db'" using assms(2) by simp
  ultimately have "mark_dish_out_of_stock dish_id ?db' =
      (Inr (JSONResponse
              (JObj [(''message'',
                      JStr (''Dish with ID '' @ str_int dish_id @ '' marked as out of stock''))])
              200),
       ?db'\<lparr>dishes := map ?mark (dishes ?db')\<rparr>)"
    by (rule mark_present)
  moreover have "map ?mark (map ?mark (dishes db)) = map ?mark (dishes db)"
    by simp
  ultimately have twice: "mark_dish_out_of_stock dish_id ?db' = mark_dish_out_of_stock dish_id db"
    by (simp add: once)
  from assms(1) obtain r where r: "find (\<lambda>r. sint (dishes_id r) = dish_id) (dishes db) = Some r"
    by (cases "find (\<lambda>r. sint (dishes_id r) = dish_id) (dishes db)")
       (auto simp add: dish_present_def list_ex_iff find_None_iff)
  have sid: "sint (dishes_id r) = dish_id"
    using r by (auto simp add: find_Some_iff)
  have "get_dish_by_id dish_id ?db' =
          Inr \<lparr>id' = dish_id, name = dishes_name r, category_id = sint (dishes_category_id r),
               availability = False, stock = map_option sint (dishes_stock r)\<rparr>"
    using sid
    by (simp add: get_dish_by_id_def bind_int_fits [OF f] word_eq_iff_sint [OF f] find_marked r
          response_model_Dish_def)
  with r once twice show ?thesis by simp
qed

text \<open>
  C6. The claim fails on the code. On the seeded store a \<open>POST /dishes\<close> of the name
  Onion Pakoda in category 2 ends in the uncaught \<open>sqlite3.IntegrityError\<close>;
  \<open>add_dish\<close> has no \<open>db.close()\<close> on that path, so its connection stays open and keeps
  the write lock. Dish 1 is in the table, yet marking it out of stock now raises
  \<open>sqlite3.OperationalError\<close> (database is locked), the answer is 500, and
  \<open>get_dish_by_id\<close> still shows the dish as available.
\<close>

theorem mark_dish_out_of_stock_after_failed_add:
  "dish_present 1
     (snd (add_dish (Some ''t'')
        \<lparr>id' = 0, name = ''Onion Pakoda'', category_id = 2, availability = True, stock = Some 20\<rparr>
        (snd (startup empty_database))))
   \<and> mark_dish_out_of_stock 1
        (snd (add_dish (Some ''t'')
           \<lparr>id' = 0, name = ''Onion Pakoda'', category_id = 2, availability = True, stock = Some 20\<rparr>
           (snd (startup empty_database)))) =
       (Inl OperationalError,
        snd (add_dish (Some ''t'')
           \<lparr>id' = 0, name = ''Onion Pakoda'', category_id = 2, availability = True, stock = Some 20\<rparr>
           (snd (startup empty_database))))
   \<and> exn_status OperationalError = 500
   \<and> get_dish_by_id 1
        (snd (mark_dish_out_of_stock 1
           (snd (add_dish (Some ''t'')
              \<lparr>id' = 0, name = ''Onion Pakoda'', category_id = 2, availability = True, stock = Some 20\<rparr>
              (snd (startup empty_database)))))) =
       Inr \<lparr>id' = 1, name = ''Onion Pakoda'', category_id = 1, availability = True, stock = Some 10\<rparr>"
proof -
  have failed: "snd (add_dish (Some ''t'')
        \<lparr>id' = 0, name = ''Onion Pakoda'', category_id = 2, availability = True, stock = Some 20\<rparr>
        (snd (startup empty_database))) =
      (snd (startup empty_database))\<lparr>write_locked := True\<rparr>"
    by (simp add: seeded_store add_dish_def oauth_scheme_def bind_int_def
          bind_opt_int_def insert_dish_def new_rowid_def bind_bool_def Let_def)
  show ?thesis
    unfolding failed
    by (simp add: seeded_store dish_present_def mark_dish_out_of_stock_def bind_int_def
          update_availability_0_def get_dish_by_id_def response_model_Dish_def)
qed

section \<open>Updating and deleting\<close>

text \<open>
  C7, as amended. When the dish id fits the store's 64-bit INTEGER (as do, for an update,
  the submitted category_id and stock), the write lock of the store is free and no row
  has that id, \<open>update_dish\<close> and \<open>delete_dish\<close> raise the 404 \<open>HTTPException\<close> and
  leave the store unchanged.
\<close>

theorem update_delete_absent:
  assumes "\<not> dish_present dish_id db" and "fits dish_id"
    and "fits (category_id d)" and "fits_opt (stock d)"
    and "\<not> write_locked db"
  shows "update_dish (Some token) dish_id d db = (Inl (HTTPException 404 ''Dish not found''), db)
         \<and> delete_dish (Some token) dish_id db = (Inl (HTTPException 404 ''Dish not found''), db)"
proof -
  let ?i = "word_of_int dish_id :: sql_int"
  have none: "\<not> list_ex (\<lambda>r. dishes_id r = ?i) (dishes db)"
    using assms(1) by (simp add: dish_present_word [OF assms(2)])
  then have all: "\<forall>r \<in> set (dishes db). dishes_id r \<noteq> ?i"
    by (simp add: list_ex_iff)
  have keep: "filter (\<lambda>r. dishes_id r \<noteq> ?i) (dishes db) = dishes db"
    using all by (simp add: filter_id_conv)
  have same: "map (\<lambda>r. if dishes_id r = ?i then f r else r) (dishes db) = dishes db" for f
    using all by (simp add: map_idI)
  have u: "update_dish (Some token) dish_id d db = (Inl (HTTPException 404 ''Dish not found''), db)"
    using assms(5)
    by (simp add: update_dish_def oauth_scheme_def bind_int_fits [OF assms(3)]
          bind_opt_int_fits [OF assms(4)] bind_int_fits [OF assms(2)] update_dishes_def
          none matched_rows_empty [OF none] same)
  have e: "delete_dish (Some token) dish_id db = (Inl (HTTPException 404 ''Dish not found''), db)"
    using assms(5)
    by (simp add: delete_dish_def oauth_scheme_def bind_int_fits [OF assms(2)] delete_dishes_def
          matched_rows_empty [OF none] keep)
  from u e show ?thesis by simp
qed

theorem update_delete_absent_witness:
  "\<not> dish_present 7 (snd (startup empty_database)) \<and> fits 7 \<and> fits 1 \<and> fits_opt None
   \<and> \<not> write_locked (snd (startup empty_database))
   \<and> update_dish (Some ''t'') 7
        \<lparr>id' = 7, name = ''Onion Pakoda'', category_id = 1, availability = False, stock = None\<rparr>
        (snd (startup empty_database)) =
       (Inl (HTTPException 404 ''Dish not found''), snd (startup empty_database))
   \<and> delete_dish (Some ''t'') 7 (snd (startup empty_database)) =
       (Inl (HTTPException 404 ''Dish not found''), snd (startup empty_database))"
proof -
  let ?d = "\<lparr>id' = 7, name = ''Onion Pakoda'', category_id = 1, availability = False, stock = None\<rparr>"
  have h1: "\<not> dish_present 7 (snd (startup empty_database))"
    by (simp add: seeded_store dish_present_def)
  have h2: "fits 7" by (simp add: fits_def)
  have h3: "fits (category_id ?d)" by (simp add: fits_def)
  have h4: "fits_opt (stock ?d)" by (simp add: fits_opt_def)
  have h5: "\<not> write_locked (snd (startup empty_database))"
    by (simp add: seeded_store)
  show ?thesis
    using update_delete_absent [OF h1 h2 h3 h4 h5, of "''t''"] h1 h2 h3 h4 h5 by simp
qed

text \<open>
  C7 as stated fails: the id \<open>2 ^ 63\<close> is in no row, yet binding it raises
  \<open>OverflowError\<close>, which the handler does not catch, so the answer is 500 and not 404.
\<close>

theorem delete_absent_counterexample:
  "\<not> dish_present 9223372036854775808 (snd (startup empty_database))
   \<and> delete_dish (Some ''t'') 9223372036854775808 (snd (startup empty_database)) =
       (Inl OverflowError, snd (startup empty_database))
   \<and> exn_status OverflowError = 500"
  by (simp add: seeded_store dish_present_def delete_dish_def oauth_scheme_def bind_int_def)

text \<open>
  C10. When the dish id is in the table and another row already has the new name,
  \<open>update_dish\<close> ends in an exception that is not an \<open>HTTPException\<close>: the
  \<open>sqlite3.IntegrityError\<close> of the \<open>UNIQUE\<close> index on \<open>name\<close> (or, when a submitted
  integer does not fit the store, the \<open>OverflowError\<close> of the binding, or, when the write
  lock is held, the \<open>sqlite3.OperationalError\<close> of the statement). No row of the store
  changes and the answer is 500, not the 400 of \<open>add_dish\<close>; after the
  \<open>IntegrityError\<close> the connection left open holds the write lock.
\<close>

theorem update_dish_duplicate_name:
  assumes "dish_present dish_id db" and "name_taken_by_other (name d) dish_id db"
  shows "update_dish (Some token) dish_id d db =
           (Inl (if fits (category_id d) \<and> fits_opt (stock d)
                 then (if write_locked db then OperationalError else IntegrityError)
                 else OverflowError),
            if fits (category_id d) \<and> fits_opt (stock d) \<and> \<not> write_locked db
            then db\<lparr>write_locked := True\<rparr> else db)
         \<and> exn_status (if fits (category_id d) \<and> fits_opt (stock d)
                        then (if write_locked db then OperationalError else IntegrityError)
                        else OverflowError) = 500
         \<and> dishes (snd (update_dish (Some token) dish_id d db)) = dishes db"
proof -
  let ?i = "word_of_int dish_id :: sql_int"
  have f: "fits dish_id" using assms(1) by (rule dish_present_fits)
  have m: "list_ex (\<lambda>r. dishes_id r = ?i) (dishes db)"
    using assms(1) by (simp add: dish_present_word [OF f])
  have o: "list_ex (\<lambda>r. dishes_id r \<noteq> ?i \<and> dishes_name r = name d) (dishes db)"
    using assms(2) by (simp add: name_taken_by_other_def list_ex_iff word_eq_iff_sint [OF f])
  show ?thesis
  proof (cases "fits (category_id d)")
    case c: True
    show ?thesis
    proof (cases "fits_opt (stock d)")
      case True
      with c m o show ?thesis
        by (simp add: update_dish_def oauth_scheme_def bind_int_fits bind_opt_int_fits f
              update_dishes_def)
    next
      case False
      with c show ?thesis
        by (simp add: update_dish_def oauth_scheme_def bind_int_fits bind_opt_int_overflow)
    qed
  next
    case False
    then show ?thesis
      by (simp add: update_dish_def oauth_scheme_def bind_int_overflow)
  qed
qed

theorem update_dish_duplicate_name_witness:
  "dish_present 2 (snd (startup empty_database))
   \<and> name_taken_by_other ''Onion Pakoda'' 2 (snd (startup empty_database))
   \<and> update_dish (Some ''t'') 2
        \<lparr>id' = 2, name = ''Onion Pakoda'', category_id = 1, availability = True, stock = Some 20\<rparr>
        (snd (startup empty_database)) =
       (Inl IntegrityError, (snd (startup empty_database))\<lparr>write_locked := True\<rparr>)"
proof -
  let ?d = "\<lparr>id' = 2, name = ''Onion Pakoda'', category_id = 1, availability = True, stock = Some 20\<rparr>"
  have h1: "dish_present 2 (snd (startup empty_database))"
    by (simp add: seeded_store dish_present_def)
  have h2: "name_taken_by_other (name ?d) 2 (snd (startup empty_database))"
    by (simp add: seeded_store name_taken_by_other_def)
  have l: "\<not> write_locked (snd (startup empty_database))"
    by (simp add: seeded_store)
  note t = update_dish_duplicate_name [OF h1 h2, of "''t''", THEN conjunct1]
  have "update_dish (Some ''t'') 2 ?d (snd (startup empty_database)) =
       (Inl IntegrityError, (snd (startup empty_database))\<lparr>write_locked := True\<rparr>)"
    using t l by (simp add: fits_def fits_opt_def)
  with h1 h2 show ?thesis by simp
qed

section \<open>The token gate\<close>

lemma insert_dish_not_http: "insert_dish n c a s db \<noteq> Inl (HTTPException code detail)"
  by (simp add: insert_dish_def new_rowid_def Let_def)

lemma bind_int_not_http: "bind_int n \<noteq> Inl (HTTPException code detail)"
  by (simp add: bind_int_def)

lemma bind_opt_int_not_http: "bind_opt_int v \<noteq> Inl (HTTPException code detail)"
  by (simp add: bind_opt_int_def bind_int_def split: option.splits)

lemma update_dishes_not_http: "update_dishes n c a s i db \<noteq> Inl (HTTPException code detail)"
  by (simp add: update_dishes_def)

lemma add_dish_not_401:
  "fst (add_dish (Some t) dish db) \<noteq> Inl (HTTPException 401 ''Not authenticated'')"
  using insert_dish_not_http bind_int_not_http bind_opt_int_not_http
  by (auto simp add: add_dish_def oauth_scheme_def split: sum.splits option.splits)

lemma update_dish_not_401:
  "fst (update_dish (Some t) dish_id dish db) \<noteq> Inl (HTTPException 401 ''Not authenticated'')"
  using update_dishes_not_http bind_int_not_http bind_opt_int_not_http
  by (auto simp add: update_dish_def oauth_scheme_def split: sum.splits option.splits)

lemma delete_dish_not_401:
  "fst (delete_dish (Some t) dish_id db) \<noteq> Inl (HTTPException 401 ''Not authenticated'')"
  using bind_int_not_http
  by (auto simp add: delete_dish_def oauth_scheme_def delete_dishes_def split: sum.splits)

text \<open>
  C8. Without a token each of the five gated handlers ends with the 401
  \<open>HTTPException\<close> and the store it was given. With a token the handler body runs, its
  outcome does not depend on what the token is, and it is never the gate's 401.
\<close>

theorem token_gate:
  "add_dish None dish db = (Inl (HTTPException 401 ''Not authenticated''), db)
   \<and> update_dish None dish_id dish db = (Inl (HTTPException 401 ''Not authenticated''), db)
   \<and> delete_dish None dish_id db = (Inl (HTTPException 401 ''Not authenticated''), db)
   \<and> get_out_of_stock_dishes None db = Inl (HTTPException 401 ''Not authenticated'')
   \<and> get_inventory_report None db = Inl (HTTPException 401 ''Not authenticated'')
   \<and> add_dish (Some t) dish db = add_dish (Some t') dish db
   \<and> update_dish (Some t) dish_id dish db = update_dish (Some t') dish_id dish db
   \<and> delete_dish (Some t) dish_id db = delete_dish (Some t') dish_id db
   \<and> get_out_of_stock_dishes (Some t) db = get_out_of_stock_dishes (Some t') db
   \<and> get_inventory_report (Some t) db = get_inventory_report (Some t') db
   \<and> fst (add_dish (Some t) dish db) \<noteq> Inl (HTTPException 401 ''Not authenticated'')
   \<and> fst (update_dish (Some t) dish_id dish db) \<noteq> Inl (HTTPException 401 ''Not authenticated'')
   \<and> fst (delete_dish (Some t) dish_id db) \<noteq> Inl (HTTPException 401 ''Not authenticated'')
   \<and> (\<exists>r. get_out_of_stock_dishes (Some t) db = Inr r)
   \<and> (\<exists>r. get_inventory_report (Some t) db = Inr r)"
proof -
  have rejected:
    "add_dish None dish db = (Inl (HTTPException 401 ''Not authenticated''), db)"
    "update_dish None dish_id dish db = (Inl (HTTPException 401 ''Not authenticated''), db)"
    "delete_dish None dish_id db = (Inl (HTTPException 401 ''Not authenticated''), db)"
    "get_out_of_stock_dishes None db = Inl (HTTPException 401 ''Not authenticated'')"
    "get_inventory_report None db = Inl (HTTPException 401 ''Not authenticated'')"
    by (simp_all add: add_dish_def update_dish_def delete_dish_def get_out_of_stock_dishes_def
          get_inventory_report_def oauth_scheme_def)
  have any_token:
    "add_dish (Some t) dish db = add_dish (Some t') dish db"
    "update_dish (Some t) dish_id dish db = update_dish (Some t') dish_id dish db"
    "delete_dish (Some t) dish_id db = delete_dish (Some t') dish_id db"
    "get_out_of_stock_dishes (Some t) db = get_out_of_stock_dishes (Some t') db"
    "get_inventory_report (Some t) db = get_inventory_report (Some t') db"
    by (simp_all add: add_dish_def update_dish_def delete_dish_def get_out_of_stock_dishes_def
          get_inventory_report_def oauth_scheme_def)
  have reads:
    "\<exists>r. get_out_of_stock_dishes (Some t) db = Inr r"
    "\<exists>r. get_inventory_report (Some t) db = Inr r"
    by (simp_all add: get_out_of_stock_dishes_def get_inventory_report_def oauth_scheme_def
          select_inventory_def Let_def)
  show ?thesis
    using rejected any_token reads add_dish_not_401 [of t dish db]
      update_dish_not_401 [of t dish_id dish db] delete_dish_not_401 [of t dish_id db]
    by blast
qed

theorem token_gate_witness:
  "delete_dish None 1 (snd (startup empty_database)) =
     (Inl (HTTPException 401 ''Not authenticated''), snd (startup empty_database))
   \<and> delete_dish (Some []) 1 (snd (startup empty_database)) =
       delete_dish (Some ''anything'') 1 (snd (startup empty_database))
   \<and> fst (delete_dish (Some []) 1 (snd (startup empty_database))) =
       Inr (JSONResponse (JObj [(''message'', JStr ''Dish deleted successfully'')]) 200)"
proof -
  note g = token_gate [of "\<lparr>id' = 0, name = [], category_id = 0, availability = False, stock = None\<rparr>"
                          "snd (startup empty_database)" 1 "[]" "''anything''"]
  have e: "fst (delete_dish (Some []) 1 (snd (startup empty_database))) =
       Inr (JSONResponse (JObj [(''message'', JStr ''Dish deleted successfully'')]) 200)"
    by (simp add: seeded_store delete_dish_def oauth_scheme_def bind_int_def delete_dishes_def)
  from g e show ?thesis by blast
qed

section \<open>Credentials\<close>

text \<open>
  C9. When the users table has a row for the submitted username and its stored hash
  matches the submitted password, \<open>post_login\<close> at clock reading \<open>now\<close> renders the
  success page with a credential, also set as the cookie \<open>jwt_token\<close>; decoded with the
  signing secret at any time \<open>t\<close> before it expires, the credential yields the submitted
  username and the expiration \<open>now + 3600\<close>, one hour after issuance.
\<close>

theorem login_credential:
  assumes "find (\<lambda>r. users_username r = user) (users db) = Some r"
    and "check_password_hash (users_password r) password"
    and "t < now + 3600"
  shows "post_login user password now db =
           \<lparr>ctx_message = Some ''Login successful. Welcome!'',
            ctx_action = ''change-password'',
            ctx_token = Some (create_jwt_token user now), ctx_username = None,
            cookie = Some (''jwt_token'', create_jwt_token user now)\<rparr>
         \<and> jwt_decode (create_jwt_token user now) JWT_SECRET_KEY t =
             Inr \<lparr>username = user, exp = now + 3600\<rparr>"
  using assms
  by (simp add: post_login_def Let_def create_jwt_token_def jwt_encode_def jwt_decode_def)

theorem login_credential_witness:
  "find (\<lambda>r. users_username r = ''alice'')
     (users (snd (post_register ''alice'' ''secret'' ''salt'' empty_database))) =
     Some \<lparr>users_id = 1, users_username = ''alice'', users_password = PwHash ''salt'' ''secret''\<rparr>
   \<and> ctx_token (post_login ''alice'' ''secret'' 1000
                   (snd (post_register ''alice'' ''secret'' ''salt'' empty_database))) =
       Some (Signed ''your_jwt_secret_key'' \<lparr>username = ''alice'', exp = 4600\<rparr>)
   \<and> jwt_decode (Signed ''your_jwt_secret_key'' \<lparr>username = ''alice'', exp = 4600\<rparr>)
        JWT_SECRET_KEY 1000 = Inr \<lparr>username = ''alice'', exp = 4600\<rparr>"
proof -
  let ?db = "snd (post_register ''alice'' ''secret'' ''salt'' empty_database)"
  let ?r = "\<lparr>users_id = 1, users_username = ''alice'', users_password = PwHash ''salt'' ''secret''\<rparr>"
  have h1: "find (\<lambda>r. users_username r = ''alice'') (users ?db) = Some ?r"
    by (simp add: post_register_def insert_user_def new_rowid_def generate_password_hash_def
          empty_database_def Let_def)
  have h2: "check_password_hash (users_password ?r) ''secret''" by simp
  have h3: "(1000 :: int) < 1000 + 3600" by simp
  have tok: "create_jwt_token ''alice'' 1000 =
      Signed ''your_jwt_secret_key'' \<lparr>username = ''alice'', exp = 4600\<rparr>"
    by (simp add: create_jwt_token_def jwt_encode_def JWT_SECRET_KEY_def)
  show ?thesis
    using login_credential [OF h1 h2 h3] h1 by (simp add: tok)
qed

text \<open>
  The rest of the change-password contract holds on the code: a credential minted by
  \<open>create_jwt_token\<close> is turned away as expired once an hour has passed, whatever the
  passwords are, and the users table changes only under a credential that carries the
  right signature and has not expired.
\<close>

lemma change_password_expired:
  assumes "now + 3600 \<le> later"
  shows "post_change_password current new (create_jwt_token user now) salt later db =
           (Inr (page (Some ''Expired token.'') ''login''), db)"
  using assms
  by (simp add: post_change_password_def create_jwt_token_def jwt_encode_def jwt_decode_def)

lemma change_password_needs_valid_credential:
  assumes "users (snd (post_change_password current new t salt now db)) \<noteq> users db"
  shows "\<exists>p. t = Signed JWT_SECRET_KEY p \<and> now < exp p"
proof (cases t)
  case (Text s)
  with assms show ?thesis
    by (simp add: post_change_password_def jwt_decode_def split: if_splits)
next
  case (Signed k p)
  with assms show ?thesis
    by (auto simp add: post_change_password_def jwt_decode_def Let_def split: if_splits)
qed

text \<open>
  C5. The claim fails on the code. Both change-password handlers catch only
  \<open>jwt.ExpiredSignatureError\<close>: a string that is not a token raises
  \<open>jwt.DecodeError\<close>, a token signed with another key raises
  \<open>jwt.InvalidSignatureError\<close>, and either leaves the handler uncaught, so the answer is
  500 and not the login page.
\<close>

theorem change_password_bad_token:
  "post_change_password current new (Text ''not-a-token'') salt now db = (Inl DecodeError, db)
   \<and> post_change_password current new (Signed ''another key'' p) salt now db =
       (Inl InvalidSignatureError, db)
   \<and> get_change_password (Some (Text ''not-a-token'')) now = Inl DecodeError
   \<and> get_change_password (Some (Signed ''another key'' p)) now = Inl InvalidSignatureError
   \<and> exn_status DecodeError = 500 \<and> exn_status InvalidSignatureError = 500"
  by (simp add: post_change_password_def get_change_password_def jwt_decode_def
        JWT_SECRET_KEY_def)

end
